theory Spec2Isabelle
  imports Main
begin

section \<open>JavaScript values\<close>

text \<open>
  The values the explorer handles are the results of \<^verbatim>\<open>response.json()\<close>, plus
  \<^verbatim>\<open>undefined\<close>, which a property read of a missing key yields.

  \<^item> A number is represented by the text that \<^verbatim>\<open>String(n)\<close> gives for it: the code only
    ever interpolates numbers into text and tests them for truthiness, and both are
    functions of that text (\<^verbatim>\<open>0\<close>, \<^verbatim>\<open>-0\<close> and \<^verbatim>\<open>NaN\<close> are the falsy numbers; the first
    two print as \<^verbatim>\<open>0\<close>).
  \<^item> An object is the list of its own enumerable properties in the order in which
    \<^verbatim>\<open>Object.entries\<close> enumerates them. A well-formed object has distinct keys.
\<close>

datatype jsval =
    JUndefined
  | JNull
  | JBool bool
  | JNum string
  | JStr string
  | JArr "jsval list"
  | JObj "(string \<times> jsval) list"

text \<open>ToBoolean, as used by \<^verbatim>\<open>||\<close>, \<^verbatim>\<open>!\<close> and \<^verbatim>\<open>if\<close>.\<close>

fun truthy :: "jsval \<Rightarrow> bool" where
  "truthy JUndefined = False"
| "truthy JNull = False"
| "truthy (JBool b) = b"
| "truthy (JNum n) = (n \<noteq> ''0'' \<and> n \<noteq> ''NaN'')"
| "truthy (JStr s) = (s \<noteq> [])"
| "truthy (JArr xs) = True"
| "truthy (JObj es) = True"

text \<open>
  \<^verbatim>\<open>value[key]\<close> for a key that no prototype defines (the code reads only
  \<^verbatim>\<open>@context\<close> and \<^verbatim>\<open>@type\<close>): the own property of an object, \<^verbatim>\<open>undefined\<close> on
  every other value. The optional chaining \<^verbatim>\<open>obj?.[key]\<close> of \<^verbatim>\<open>isJSONLD\<close> gives
  \<^verbatim>\<open>undefined\<close> on \<^verbatim>\<open>null\<close> as well.
\<close>

fun getprop :: "jsval \<Rightarrow> string \<Rightarrow> jsval" where
  "getprop (JObj es) k = (case map_of es k of Some v \<Rightarrow> v | None \<Rightarrow> JUndefined)"
| "getprop v k = JUndefined"

text \<open>\<^verbatim>\<open>a || b\<close>\<close>

definition js_or :: "jsval \<Rightarrow> jsval \<Rightarrow> jsval" where
  "js_or a b = (if truthy a then a else b)"

text \<open>\<^verbatim>\<open>Array.prototype.join\<close> on an array of strings.\<close>

fun join :: "string \<Rightarrow> string list \<Rightarrow> string" where
  "join sep [] = []"
| "join sep [x] = x"
| "join sep (x # y # ys) = x @ sep @ join sep (y # ys)"

text \<open>
  The only exception the modelled code raises is a TypeError. Exhausting a resource (the
  call stack, on a document nested too deep) is outside the model.
\<close>

datatype error = TypeError

text \<open>
  The results of the calls that \<^verbatim>\<open>map\<close> or \<^verbatim>\<open>join\<close> makes, one per element and in order:
  the first call that throws ends the loop with its exception.
\<close>

fun collect :: "(error + 'a) list \<Rightarrow> error + 'a list" where
  "collect [] = Inr []"
| "collect (Inl e # rs) = Inl e"
| "collect (Inr x # rs) = (case collect rs of Inl e \<Rightarrow> Inl e | Inr xs \<Rightarrow> Inr (x # xs))"

text \<open>
  ToString, as a template literal applies it to an interpolated value.
  \<^item> An array is converted by \<^verbatim>\<open>Array.prototype.toString\<close>, that is by \<^verbatim>\<open>join(',')\<close>, which
    writes nothing for \<^verbatim>\<open>null\<close> and \<^verbatim>\<open>undefined\<close> and converts the other elements.
  \<^item> An object is converted by its \<^verbatim>\<open>toString\<close> method, then by \<^verbatim>\<open>valueOf\<close>. An object
    parsed from JSON inherits both from \<^verbatim>\<open>Object.prototype\<close> and gives \<^verbatim>\<open>[object Object]\<close>,
    unless it has a key \<^verbatim>\<open>toString\<close> of its own: the value of that key is not callable,
    the inherited \<^verbatim>\<open>valueOf\<close> (or an own key \<^verbatim>\<open>valueOf\<close>) gives no primitive, and the
    conversion throws a TypeError.
\<close>

fun js_string :: "jsval \<Rightarrow> error + string" where
  "js_string JUndefined = Inr ''undefined''"
| "js_string JNull = Inr ''null''"
| "js_string (JBool b) = Inr (if b then ''true'' else ''false'')"
| "js_string (JNum n) = Inr n"
| "js_string (JStr s) = Inr s"
| "js_string (JArr xs) =
     (case collect (map (\<lambda>x. if x = JNull \<or> x = JUndefined then Inr [] else js_string x) xs) of
        Inl e \<Rightarrow> Inl e
      | Inr ts \<Rightarrow> Inr (join '','' ts))"
| "js_string (JObj es) =
     (if ''toString'' \<in> set (map fst es) then Inl TypeError else Inr ''[object Object]'')"

section \<open>utils\<close>

text \<open>
  The browser and the two converter libraries are parameters of the model.
  \<^item> \<^verbatim>\<open>decodeHtmlEntities\<close> on a string is what a \<^verbatim>\<open>textarea\<close> element makes of it.
  \<^item> \<^verbatim>\<open>JSON.stringify\<close> is the built-in.
  \<^item> \<^verbatim>\<open>renderValue\<close> is the markup \<^verbatim>\<open>DataRenderer.renderValue\<close> builds for a table cell;
    no property below depends on it.
  \<^item> \<^verbatim>\<open>rdflib\<close> is \<^verbatim>\<open>window.$rdf\<close>, absent when the library is not loaded: parsing a
    Turtle text and serialising it to the target format gives a text (\<open>Inr\<close>) or throws
    (\<open>Inl\<close>, the text of the error).
  \<^item> \<^verbatim>\<open>jsonld\<close> tells whether \<^verbatim>\<open>window.jsonld\<close> is loaded. What its converter answers
    arrives later, as the input of the step that resumes the waiting function.
\<close>

text \<open>
  The format names: \<^verbatim>\<open>'table'\<close>, \<^verbatim>\<open>'turtle'\<close>, \<^verbatim>\<open>'rdfxml'\<close>, \<^verbatim>\<open>'ntriples'\<close> and
  \<^verbatim>\<open>'nquads'\<close>, the only ones that \<^verbatim>\<open>bindEvents\<close> and \<^verbatim>\<open>renderTable\<close> pass on.
\<close>

datatype format = Table | Turtle | Rdfxml | Ntriples | Nquads

record host =
  decodeHtmlEntities :: "string \<Rightarrow> string"
  JSON_stringify :: "jsval \<Rightarrow> string"
  renderValue :: "jsval \<Rightarrow> string"
  rdflib :: "(format \<Rightarrow> string \<Rightarrow> string + string) option"
  jsonld :: bool

text \<open>\<^verbatim>\<open>isObject: val => typeof val === 'object' && val !== null\<close>; an array has type
  \<^verbatim>\<open>'object'\<close> too.\<close>

fun isObject :: "jsval \<Rightarrow> bool" where
  "isObject (JArr xs) = True"
| "isObject (JObj es) = True"
| "isObject v = False"

text \<open>\<^verbatim>\<open>isJSONLD: obj => obj?.['@context'] || obj?.['@type']\<close>\<close>

definition isJSONLD :: "jsval \<Rightarrow> jsval" where
  "isJSONLD obj = js_or (getprop obj ''@context'') (getprop obj ''@type'')"

section \<open>RDFConverter\<close>

definition NL :: string where
  "NL = [CHR 0x0A]"

definition DQ :: string where
  "DQ = [CHR 0x22]"

definition prefixes :: "(string \<times> string) list" where
  "prefixes =
    [(''schema'', ''https://schema.org/''),
     (''csvw'', ''https://www.w3.org/ns/csvw#''),
     (''foaf'', ''http://xmlns.com/foaf/0.1/''),
     (''dcat'', ''http://www.w3.org/ns/dcat#''),
     (''sh'', ''http://www.w3.org/ns/shacl#''),
     (''rdf'', ''http://www.w3.org/1999/02/22-rdf-syntax-ns#''),
     (''rdfs'', ''http://www.w3.org/2000/01/rdf-schema#'')]"

text \<open>\<^verbatim>\<open>/^https?:\/\//.test(s)\<close>\<close>

definition is_http :: "string \<Rightarrow> bool" where
  "is_http s = (take 7 s = ''http://'' \<or> take 8 s = ''https://'')"

text \<open>\<^verbatim>\<open>s.replace(/"/g, '\\"')\<close>: a backslash before every double quote.\<close>

definition escape_quotes :: "string \<Rightarrow> string" where
  "escape_quotes s = concat (map (\<lambda>c. if c = CHR 0x22 then [CHR 0x5C, CHR 0x22] else [c]) s)"

text \<open>\<^verbatim>\<open>key.includes(':') ? key : `schema:${key}`\<close>\<close>

definition predicate :: "string \<Rightarrow> string" where
  "predicate key = (if CHR '':'' \<in> set key then key else ''schema:'' @ key)"

text \<open>
  \<^verbatim>\<open>formatValue(value, indent)\<close>. For a number or a boolean the source returns the value
  itself; every caller interpolates the result into text, which is what the model returns.
  For a typed node the property lines are built first and \<^verbatim>\<open>value['@type']\<close> is
  interpolated after them; either can throw.
\<close>

fun formatValue :: "host \<Rightarrow> jsval \<Rightarrow> string \<Rightarrow> error + string" where
  "formatValue h (JStr s) indent =
     Inr (if is_http (decodeHtmlEntities h s) then ''<'' @ decodeHtmlEntities h s @ ''>''
          else DQ @ escape_quotes (decodeHtmlEntities h s) @ DQ)"
| "formatValue h (JNum n) indent = Inr n"
| "formatValue h (JBool b) indent = Inr (if b then ''true'' else ''false'')"
| "formatValue h (JArr xs) indent =
     (if xs = [] then Inr ''()''
      else
        (case collect (map (\<lambda>v. formatValue h v (indent @ ''  '')) xs) of
           Inl e \<Rightarrow> Inl e
         | Inr items \<Rightarrow>
             Inr (if list_all (\<lambda>e. \<not> isObject e) xs
                  then ''('' @ NL @ indent @ ''  '' @ join '' '' items @ NL @ indent @ '')''
                  else join ('' ,'' @ NL @ indent) items)))"
| "formatValue h (JObj es) indent =
     (if truthy (getprop (JObj es) ''@type'')
      then
        (case collect
                (map (\<lambda>(k, v).
                        case formatValue h v (indent @ ''  '') of
                          Inl e \<Rightarrow> Inl e
                        | Inr t \<Rightarrow> Inr (indent @ ''  '' @ predicate k @ '' '' @ t))
                   (filter (\<lambda>(k, v). k \<noteq> ''@type'') es)) of
           Inl e \<Rightarrow> Inl e
         | Inr props \<Rightarrow>
             (case js_string (getprop (JObj es) ''@type'') of
                Inl e \<Rightarrow> Inl e
              | Inr t \<Rightarrow>
                  Inr (''['' @ NL @ indent @ ''  a schema:'' @ t @ '' ;'' @ NL
                       @ join ('' ;'' @ NL) props @ NL @ indent @ '']'')))
      else Inr (DQ @ escape_quotes (decodeHtmlEntities h (JSON_stringify h (JObj es))) @ DQ))"
| "formatValue h JNull indent = Inr (DQ @ DQ)"
| "formatValue h JUndefined indent = Inr (DQ @ DQ)"

text \<open>The decimal text of an array index.\<close>

fun decimal :: "nat \<Rightarrow> string" where
  "decimal n =
     (if n < 10 then [char_of (48 + n)]
      else decimal (n div 10) @ [char_of (48 + n mod 10)])"

definition indexed :: "jsval list \<Rightarrow> (string \<times> jsval) list" where
  "indexed xs = zip (map decimal [0..<length xs]) xs"

text \<open>
  \<^verbatim>\<open>Object.entries(value)\<close>: a TypeError on \<^verbatim>\<open>null\<close> and \<^verbatim>\<open>undefined\<close>, nothing for a
  number or a boolean, the indexed characters of a string, the indexed elements of an
  array, the own properties of an object.
\<close>

fun Object_entries :: "jsval \<Rightarrow> error + (string \<times> jsval) list" where
  "Object_entries JUndefined = Inl TypeError"
| "Object_entries JNull = Inl TypeError"
| "Object_entries (JBool b) = Inr []"
| "Object_entries (JNum n) = Inr []"
| "Object_entries (JStr s) = Inr (indexed (map (\<lambda>c. JStr [c]) s))"
| "Object_entries (JArr xs) = Inr (indexed xs)"
| "Object_entries (JObj es) = Inr es"

text \<open>The prefix declarations that open every Turtle text, and the blank line after them.\<close>

definition prefix_block :: string where
  "prefix_block =
     join NL (map (\<lambda>(prefix, uri). ''@prefix '' @ prefix @ '': <'' @ uri @ ''> .'') prefixes)
     @ NL @ NL"

text \<open>
  \<^verbatim>\<open>toTurtle(data)\<close>. Reading \<^verbatim>\<open>data['@type']\<close> and \<^verbatim>\<open>Object.entries(data)\<close> both throw
  a TypeError on \<^verbatim>\<open>null\<close> and \<^verbatim>\<open>undefined\<close>, and on nothing else. The property lines are
  built next, and the type is interpolated into the text last; either can throw.
\<close>

definition toTurtle :: "host \<Rightarrow> jsval \<Rightarrow> error + string" where
  "toTurtle h data =
     (case Object_entries data of
        Inl e \<Rightarrow> Inl e
      | Inr es \<Rightarrow>
          (case collect
                  (map (\<lambda>(key, value).
                          case formatValue h value ''  '' of
                            Inl e \<Rightarrow> Inl e
                          | Inr t \<Rightarrow> Inr (''  '' @ predicate key @ '' '' @ t))
                     (filter (\<lambda>(key, value). key \<notin> set [''@context'', ''@type'']) es)) of
             Inl e \<Rightarrow> Inl e
           | Inr props \<Rightarrow>
               (case js_string (js_or (getprop data ''@type'') (JStr ''Resource'')) of
                  Inl e \<Rightarrow> Inl e
                | Inr t \<Rightarrow>
                    Inr (prefix_block @ ''<> a schema:'' @ t @ '' ;'' @ NL
                         @ join ('' ;'' @ NL) props @ '' .'' @ NL))))"

section \<open>Creating objects\<close>

text \<open>
  An object literal, a spread and \<^verbatim>\<open>Object.fromEntries\<close> define properties one after the
  other. Defining a key that exists replaces its value and keeps its place. The
  properties are then enumerated with the array indices first, in ascending numeric
  order, and the other keys after them in the order of their definition.
\<close>

fun define_property :: "string \<Rightarrow> jsval \<Rightarrow> (string \<times> jsval) list \<Rightarrow> (string \<times> jsval) list" where
  "define_property k v [] = [(k, v)]"
| "define_property k v ((k', v') # es) =
     (if k = k' then (k, v) # es else (k', v') # define_property k v es)"

definition index_value :: "string \<Rightarrow> int" where
  "index_value s = foldl (\<lambda>n c. 10 * n + (of_char c - 48)) 0 s"

text \<open>An array index is the canonical decimal text of an integer from 0 to \<open>2\<^sup>3\<^sup>2 - 2\<close>.\<close>

definition is_array_index :: "string \<Rightarrow> bool" where
  "is_array_index s =
     (s \<noteq> [] \<and> list_all (\<lambda>c. 48 \<le> (of_char c :: int) \<and> (of_char c :: int) \<le> 57) s
      \<and> (if hd s = CHR ''0'' then s = ''0'' else True) \<and> index_value s < 2 ^ 32 - 1)"

definition own_property_order :: "(string \<times> jsval) list \<Rightarrow> (string \<times> jsval) list" where
  "own_property_order es =
     sort_key (\<lambda>(k, v). index_value k) (filter (\<lambda>(k, v). is_array_index k) es)
     @ filter (\<lambda>(k, v). \<not> is_array_index k) es"

definition create_object :: "(string \<times> jsval) list \<Rightarrow> (string \<times> jsval) list" where
  "create_object defs = own_property_order (foldl (\<lambda>es (k, v). define_property k v es) [] defs)"

section \<open>JSONLDExplorer: the kept document\<close>

text \<open>
  \<^verbatim>\<open>wrapGenericData(data)\<close>: the object literal with the two markers, then the spread of
  \<^verbatim>\<open>Object.fromEntries\<close> of the entries of \<^verbatim>\<open>data\<close> that are not markers.
\<close>

definition wrapGenericData :: "jsval \<Rightarrow> error + jsval" where
  "wrapGenericData data =
     (case Object_entries data of
        Inl e \<Rightarrow> Inl e
      | Inr es \<Rightarrow>
          Inr (JObj (create_object
                 ([(''@context'', JObj (create_object [(''schema'', JStr ''https://schema.org/'')])),
                   (''@type'', JStr ''Resource'')]
                  @ create_object (filter (\<lambda>(k, v). k \<notin> set [''@context'', ''@type'']) es)))))"

text \<open>
  The document that \<^verbatim>\<open>loadData\<close> keeps:
  \<^verbatim>\<open>utils.isJSONLD(data) ? data : this.wrapGenericData(data)\<close>.
\<close>

definition normalize :: "jsval \<Rightarrow> error + jsval" where
  "normalize data = (if truthy (isJSONLD data) then Inr data else wrapGenericData data)"


section \<open>JSONLDExplorer: state\<close>

text \<open>
  A view is a \<^verbatim>\<open>div\<close>: its inline \<^verbatim>\<open>style.display\<close> and what it shows (the markup of
  the table view, the text of the \<^verbatim>\<open>pre\<close> of the others).
\<close>

record view =
  display :: string
  content :: string

record explorer =
  data :: jsval
  currentFormat :: format
  cache :: "format \<Rightarrow> string option"
  views :: "format \<Rightarrow> view"
  load_disabled :: bool
  load_text :: string
  download_display :: string
  toggle_disabled :: "format \<Rightarrow> bool"

definition set_display :: "format \<Rightarrow> string \<Rightarrow> explorer \<Rightarrow> explorer" where
  "set_display f d st = st\<lparr>views := (views st)(f := (views st f)\<lparr>display := d\<rparr>)\<rparr>"

definition set_content :: "format \<Rightarrow> string \<Rightarrow> explorer \<Rightarrow> explorer" where
  "set_content f t st = st\<lparr>views := (views st)(f := (views st f)\<lparr>content := t\<rparr>)\<rparr>"

text \<open>\<^verbatim>\<open>Object.values(views).forEach(view => view.style.display = 'none')\<close>\<close>

definition hide_all :: "explorer \<Rightarrow> explorer" where
  "hide_all st = st\<lparr>views := (\<lambda>f. (views st f)\<lparr>display := ''none''\<rparr>)\<rparr>"

text \<open>\<^verbatim>\<open>s.includes(sub)\<close>\<close>

fun str_includes :: "string \<Rightarrow> string \<Rightarrow> bool" where
  "str_includes [] sub = (sub = [])"
| "str_includes (c # cs) sub = (take (length sub) (c # cs) = sub \<or> str_includes cs sub)"

section \<open>Derivations\<close>

text \<open>
  What an \<^verbatim>\<open>async\<close> derivation has in hand when it returns its promise: a text that is
  already known, or a call of the N-Quads converter on a document, still running.
\<close>

datatype derivation = Settled string | Converting jsval

text \<open>
  The text a derivation resolves to, given the answer of the converter: its text
  (\<open>Inr\<close>) or the error it threw (\<open>Inl\<close>), which \<^verbatim>\<open>toNQuads\<close> catches.
\<close>

fun settle :: "derivation \<Rightarrow> string + string \<Rightarrow> string" where
  "settle (Settled t) r = t"
| "settle (Converting d) (Inr t) = t"
| "settle (Converting d) (Inl e) = ''Error converting: '' @ e"

definition toNQuads :: "host \<Rightarrow> jsval \<Rightarrow> derivation" where
  "toNQuads h d = (if \<not> jsonld h then Settled ''jsonld.js not loaded!'' else Converting d)"

definition toRDF :: "host \<Rightarrow> format \<Rightarrow> string \<Rightarrow> string" where
  "toRDF h f turtle =
     (case rdflib h of
        None \<Rightarrow> ''RDFLib not loaded!''
      | Some convert \<Rightarrow>
          (case convert f turtle of
             Inr text \<Rightarrow> text
           | Inl e \<Rightarrow> ''Error converting: '' @ e))"

definition generateContent :: "host \<Rightarrow> format \<Rightarrow> jsval \<Rightarrow> error + derivation" where
  "generateContent h f d =
     (case toTurtle h d of
        Inl e \<Rightarrow> Inl e
      | Inr turtle \<Rightarrow>
          Inr (case f of
                 Turtle \<Rightarrow> Settled turtle
               | Rdfxml \<Rightarrow> Settled (toRDF h Rdfxml turtle)
               | Ntriples \<Rightarrow> Settled (toRDF h Ntriples turtle)
               | Nquads \<Rightarrow> toNQuads h d
               | Table \<Rightarrow> Settled []))"

section \<open>Showing a view\<close>

text \<open>
  An \<^verbatim>\<open>async\<close> function runs to its first \<^verbatim>\<open>await\<close> and is resumed later with the
  awaited value; other handlers may run in between. Each is modelled by the step to the
  \<^verbatim>\<open>await\<close>, which returns the tasks left waiting, and the step that resumes it.
\<close>

datatype task = ShowViewTask format derivation | NQuadsTask derivation

definition handleAsyncNQuads :: "host \<Rightarrow> explorer \<Rightarrow> explorer \<times> task" where
  "handleAsyncNQuads h st = (set_content Nquads ''Loading...'' st, NQuadsTask (toNQuads h (data st)))"

definition handleAsyncNQuads_resume :: "string \<Rightarrow> explorer \<Rightarrow> explorer" where
  "handleAsyncNQuads_resume nquads st =
     (let st1 = st\<lparr>cache := (cache st)(Nquads \<mapsto> nquads)\<rparr>
      in if currentFormat st1 = Nquads then set_content Nquads nquads st1 else st1)"

definition renderContent :: "host \<Rightarrow> format \<Rightarrow> string \<Rightarrow> explorer \<Rightarrow> explorer \<times> task list" where
  "renderContent h f text st =
     (if f = Nquads \<and> Some text = cache st Nquads \<and> str_includes text ''Loading''
      then (case handleAsyncNQuads h st of (st', t) \<Rightarrow> (st', [t]))
      else (set_content f text st, []))"

text \<open>\<^verbatim>\<open>showView(format)\<close> up to \<^verbatim>\<open>await this.generateContent(format)\<close>, or to its end.\<close>

definition showView :: "host \<Rightarrow> format \<Rightarrow> explorer \<Rightarrow> explorer \<times> task list" where
  "showView h f st =
     (if \<not> truthy (data st) then (st, [])
      else
        let st1 = (hide_all st)\<lparr>currentFormat := f,
                     download_display := (if f = Table then ''none'' else ''inline-block'')\<rparr>
        in if f = Table then (set_display Table ''block'' st1, [])
           else if cache st1 f = None \<or> cache st1 f = Some []
           then (case generateContent h f (data st1) of
                   Inl e \<Rightarrow> (st1, [])
                 | Inr d \<Rightarrow> (st1, [ShowViewTask f d]))
           else (case renderContent h f (the (cache st1 f)) st1 of
                   (st2, ts) \<Rightarrow> (set_display f ''block'' st2, ts)))"

text \<open>\<^verbatim>\<open>showView(format)\<close> from the value of the \<^verbatim>\<open>await\<close> on.\<close>

definition showView_resume :: "host \<Rightarrow> format \<Rightarrow> string \<Rightarrow> explorer \<Rightarrow> explorer \<times> task list" where
  "showView_resume h f text st =
     (case renderContent h f text (st\<lparr>cache := (cache st)(f \<mapsto> text)\<rparr>) of
        (st2, ts) \<Rightarrow> (set_display f ''block'' st2, ts))"

section \<open>Loading a document\<close>

definition setLoadingState :: "bool \<Rightarrow> explorer \<Rightarrow> explorer" where
  "setLoadingState isLoading st =
     (let st1 = st\<lparr>load_disabled := isLoading,
                   load_text := (if isLoading then ''Loading...'' else ''Load Data''),
                   download_display := ''none''\<rparr>
      in if isLoading then hide_all (set_content Table ''Loading...'' st1) else st1)"

definition updateButtonStates :: "host \<Rightarrow> explorer \<Rightarrow> explorer" where
  "updateButtonStates h st =
     st\<lparr>toggle_disabled := (toggle_disabled st)
           (Turtle := False, Rdfxml := (rdflib h = None), Ntriples := (rdflib h = None),
            Nquads := (\<not> jsonld h))\<rparr>"

definition renderTable :: "host \<Rightarrow> jsval \<Rightarrow> explorer \<Rightarrow> error + explorer" where
  "renderTable h d st =
     (case Object_entries d of
        Inl e \<Rightarrow> Inl e
      | Inr es \<Rightarrow>
          Inr (fst (showView h Table
                 (set_content Table
                    (''<table><thead><tr><th>Key</th><th>Value</th></tr></thead><tbody>''
                     @ concat (map (\<lambda>(key, val). ''<tr><td>'' @ key @ ''</td><td>''
                                      @ renderValue h val @ ''</td></tr>'') es)
                     @ ''</tbody></table>'') st))))"

text \<open>What the two awaits of \<^verbatim>\<open>loadData\<close> end in: \<^verbatim>\<open>fetch\<close> rejects, \<^verbatim>\<open>response.json()\<close>
  rejects, or the parsed document.\<close>

datatype fetched = FetchFailed | ParseFailed | Json jsval

definition failure_message :: string where
  "failure_message = ''Failed to load data! Check the URL and try again.''"

text \<open>The \<^verbatim>\<open>catch\<close> block of \<^verbatim>\<open>loadData\<close>.\<close>

definition load_failed :: "explorer \<Rightarrow> explorer" where
  "load_failed st = setLoadingState False (set_content Table failure_message st)"

text \<open>\<^verbatim>\<open>loadData(url)\<close> up to \<^verbatim>\<open>await fetch(url)\<close>.\<close>

definition loadData :: "explorer \<Rightarrow> explorer" where
  "loadData st = setLoadingState True st"

text \<open>\<^verbatim>\<open>loadData(url)\<close> from the outcome of the awaits on.\<close>

definition loadData_resume :: "host \<Rightarrow> fetched \<Rightarrow> explorer \<Rightarrow> explorer" where
  "loadData_resume h r st =
     (case r of
        Json d \<Rightarrow>
          (case normalize d of
             Inl e \<Rightarrow> load_failed st
           | Inr doc \<Rightarrow>
               (case renderTable h d (st\<lparr>data := doc, cache := (\<lambda>f. None)\<rparr>) of
                  Inl e \<Rightarrow> load_failed (st\<lparr>data := doc, cache := (\<lambda>f. None)\<rparr>)
                | Inr st' \<Rightarrow> setLoadingState False (updateButtonStates h st')))
      | FetchFailed \<Rightarrow> load_failed st
      | ParseFailed \<Rightarrow> load_failed st)"

text \<open>
  The state the constructor leaves, before any document is loaded: no document, the table
  format, an empty cache. What the markup of the page decides (the displays, the label of
  the load button, which toggles are disabled) is given plain values.
\<close>

definition initial :: explorer where
  "initial =
     \<lparr>data = JNull, currentFormat = Table, cache = (\<lambda>f. None),
      views = (\<lambda>f. \<lparr>display = [], content = []\<rparr>),
      load_disabled = False, load_text = ''Load Data'', download_display = [],
      toggle_disabled = (\<lambda>f. False)\<rparr>"

section \<open>The document as an object on the heap\<close>

text \<open>
  A value of type \<open>jsval\<close> has no identity: it cannot tell an object from a copy of it.
  Where that matters the document is held by reference. The heap is the list of the
  objects allocated so far, a reference is a position in it, and an object literal
  allocates at the end. Only the identity of the document itself is tracked; the values
  inside it are carried as they are.
\<close>

type_synonym heap = "jsval list"

datatype handle = Ref nat | Prim jsval

fun deref :: "heap \<Rightarrow> handle \<Rightarrow> jsval" where
  "deref hp (Ref a) = (if a < length hp then hp ! a else JUndefined)"
| "deref hp (Prim v) = v"

text \<open>
  \<^verbatim>\<open>utils.isJSONLD(data) ? data : this.wrapGenericData(data)\<close> on references: the first
  branch yields the reference it was given and leaves the heap alone, the second yields
  the reference of the object that the literal in \<^verbatim>\<open>wrapGenericData\<close> allocates.
\<close>

definition normalize_ref :: "heap \<Rightarrow> handle \<Rightarrow> error + heap \<times> handle" where
  "normalize_ref hp d =
     (if truthy (isJSONLD (deref hp d)) then Inr (hp, d)
      else
        (case wrapGenericData (deref hp d) of
           Inl e \<Rightarrow> Inl e
         | Inr w \<Rightarrow> Inr (hp @ [w], Ref (length hp))))"

section \<open>Examples\<close>

text \<open>
  A host for the examples: their strings hold no character reference, so decoding leaves
  them as they are; none of them reaches \<^verbatim>\<open>JSON.stringify\<close> or the table markup; RDFLib
  is not loaded and jsonld.js is.
\<close>

definition plain_host :: host where
  "plain_host =
     \<lparr>decodeHtmlEntities = (\<lambda>s. s), JSON_stringify = (\<lambda>v. []), renderValue = (\<lambda>v. []),
      rdflib = None, jsonld = True\<rparr>"

definition friend :: jsval where
  "friend = JObj [(''@type'', JStr ''Person''), (''name'', JStr ''Bob'')]"


definition person_doc :: jsval where
  "person_doc = JObj [(''@type'', JStr ''Person''), (''friends'', JArr [friend])]"

text \<open>The Turtle text of \<^verbatim>\<open>person_doc\<close>.\<close>

definition person_turtle :: string where
  "person_turtle =
     prefix_block
     @ ''<> a schema:Person ;'' @ NL
     @ ''  schema:friends ['' @ NL
     @ ''      a schema:Person ;'' @ NL
     @ ''      schema:name '' @ DQ @ ''Bob'' @ DQ @ NL
     @ ''    ] .'' @ NL"

text \<open>The explorer after \<^verbatim>\<open>person_doc\<close> has been fetched and loaded.\<close>

definition person_loaded :: explorer where
  "person_loaded = loadData_resume plain_host (Json person_doc) (loadData initial)"

text \<open>
  The explorer after four steps: N-Quads is requested, the user switches to Turtle, the
  Turtle request resumes with its text, and only then the N-Quads derivation resolves,
  to \<open>q\<close>.
\<close>

definition switch_then_resolve :: "host \<Rightarrow> explorer \<Rightarrow> string \<Rightarrow> string \<Rightarrow> explorer" where
  "switch_then_resolve h st turtle q =
     fst (showView_resume h Nquads q
       (fst (showView_resume h Turtle turtle
         (fst (showView h Turtle
           (fst (showView h Nquads st)))))))"

section \<open>The layouts as the specification words them\<close>









text \<open>The text the specification gives for the nested friend of \<^verbatim>\<open>person_doc\<close>.\<close>

definition friend_claimed :: string where
  "friend_claimed =
     ''['' @ NL @ ''  a schema:Person ;'' @ NL @ ''  schema:name '' @ DQ @ ''Bob'' @ DQ @ NL @ '']''"

section \<open>Properties of the kept document\<close>

lemma define_property_fresh:
  "k \<notin> fst ` set es \<Longrightarrow> define_property k v es = es @ [(k, v)]"
  by (induction es) auto

lemma foldl_define_property_distinct:
  "distinct (map fst (acc @ defs)) \<Longrightarrow>
   foldl (\<lambda>es (k, v). define_property k v es) acc defs = acc @ defs"
proof (induction defs arbitrary: acc)
  case Nil
  then show ?case by simp
next
  case (Cons d defs)
  obtain k v where d: "d = (k, v)" by (cases d)
  from Cons.prems have fresh: "k \<notin> fst ` set acc" by (auto simp: d)
  from Cons.prems have "distinct (map fst ((acc @ [(k, v)]) @ defs))" by (auto simp: d)
  from Cons.IH [OF this] show ?case by (simp add: d define_property_fresh [OF fresh])
qed

lemma set_own_property_order: "set (own_property_order es) = set es"
  by (auto simp: own_property_order_def)

lemma distinct_own_property_order:
  "distinct (map fst es) \<Longrightarrow> distinct (map fst (own_property_order es))"
proof -
  assume d: "distinct (map fst es)"
  then have "distinct es" and inj: "inj_on fst (set es)" by (simp_all add: distinct_map)
  then have "distinct (own_property_order es)"
    by (auto simp: own_property_order_def)
  with inj show ?thesis by (simp add: distinct_map set_own_property_order)
qed

lemma create_object_distinct:
  "distinct (map fst defs) \<Longrightarrow>
   set (create_object defs) = set defs \<and> distinct (map fst (create_object defs))"
  using foldl_define_property_distinct [of "[]" defs]
  by (simp add: create_object_def set_own_property_order distinct_own_property_order)


lemma create_object_schema:
  "create_object [(''schema'', v)] = [(''schema'', v)]"
  by (simp add: create_object_def own_property_order_def is_array_index_def)

lemma map_of_eqI_distinct:
  assumes "distinct (map fst xs)" and "\<And>k v. ((k, v) \<in> set xs) = (m k = Some v)"
  shows "map_of xs = m"
proof
  fix k
  show "map_of xs k = m k"
  proof (cases "m k")
    case None
    with assms(2) have "k \<notin> fst ` set xs" by force
    then show ?thesis by (simp add: None map_of_eq_None_iff)
  next
    case (Some v)
    with assms show ?thesis by simp
  qed
qed

lemma isJSONLD_no_markers:
  "''@context'' \<notin> fst ` set es \<Longrightarrow> ''@type'' \<notin> fst ` set es \<Longrightarrow> isJSONLD (JObj es) = JUndefined"
  by (simp add: isJSONLD_def js_or_def map_of_eq_None_iff [THEN iffD2])

text \<open>
  Claim C3. A mapping with distinct keys, none of them \<^verbatim>\<open>@context\<close> or \<^verbatim>\<open>@type\<close>, is
  not semantic, and \<^verbatim>\<open>loadData\<close> keeps \<^verbatim>\<open>wrapGenericData\<close> of it: an object that maps
  every key of the input to the value it had, maps \<^verbatim>\<open>@context\<close> to the single binding of
  \<^verbatim>\<open>schema\<close> to \<^verbatim>\<open>https://schema.org/\<close> and \<^verbatim>\<open>@type\<close> to \<^verbatim>\<open>Resource\<close>, has no other key,
  and is semantic.
\<close>

theorem normalize_wraps_generic_data:
  assumes keys: "distinct (map fst es)"
    and no_context: "''@context'' \<notin> fst ` set es"
    and no_type: "''@type'' \<notin> fst ` set es"
  shows "\<exists>es'. normalize (JObj es) = Inr (JObj es')
           \<and> wrapGenericData (JObj es) = Inr (JObj es')
           \<and> distinct (map fst es')
           \<and> map_of es' = (map_of es)
                 (''@context'' \<mapsto> JObj [(''schema'', JStr ''https://schema.org/'')],
                  ''@type'' \<mapsto> JStr ''Resource'')
           \<and> truthy (isJSONLD (JObj es'))"
proof -
  define ctx where "ctx = JObj [(''schema'', JStr ''https://schema.org/'')]"
  define rest where "rest = create_object es"
  define es' where "es' = create_object ([(''@context'', ctx), (''@type'', JStr ''Resource'')] @ rest)"
  have unfiltered: "filter (\<lambda>(k, v). k \<noteq> ''@context'' \<and> k \<noteq> ''@type'') es = es"
    using no_context no_type by (force simp: filter_id_conv)
  have rest: "set rest = set es" "distinct (map fst rest)"
    using create_object_distinct [OF keys] by (simp_all add: rest_def)
  have "distinct (map fst ([(''@context'', ctx), (''@type'', JStr ''Resource'')] @ rest))"
    using rest no_context no_type by force
  from create_object_distinct [OF this]
  have es': "set es' = {(''@context'', ctx), (''@type'', JStr ''Resource'')} \<union> set es"
    and dist: "distinct (map fst es')"
    by (auto simp: es'_def rest)
  have wrap: "wrapGenericData (JObj es) = Inr (JObj es')"
    by (simp add: wrapGenericData_def unfiltered create_object_schema es'_def rest_def ctx_def)
  have norm: "normalize (JObj es) = Inr (JObj es')"
    by (simp add: normalize_def isJSONLD_no_markers [OF no_context no_type] wrap)
  have lookup: "map_of es' = (map_of es)(''@context'' \<mapsto> ctx, ''@type'' \<mapsto> JStr ''Resource'')"
  proof (rule map_of_eqI_distinct [OF dist])
    fix k v
    show "((k, v) \<in> set es') =
          (((map_of es)(''@context'' \<mapsto> ctx, ''@type'' \<mapsto> JStr ''Resource'')) k = Some v)"
      using no_context no_type keys by (force simp: es')
  qed
  have "truthy (isJSONLD (JObj es'))"
    by (simp add: isJSONLD_def js_or_def lookup ctx_def)
  with wrap norm dist lookup show ?thesis unfolding ctx_def by blast
qed

theorem normalize_wraps_generic_data_witness:
  "\<exists>es'. normalize (JObj [(''name'', JStr ''Alice''), (''homepage'', JStr ''https://alice.example'')])
            = Inr (JObj es')
     \<and> wrapGenericData (JObj [(''name'', JStr ''Alice''), (''homepage'', JStr ''https://alice.example'')])
            = Inr (JObj es')
     \<and> distinct (map fst es')
     \<and> map_of es' = (map_of [(''name'', JStr ''Alice''), (''homepage'', JStr ''https://alice.example'')])
                     (''@context'' \<mapsto> JObj [(''schema'', JStr ''https://schema.org/'')],
                      ''@type'' \<mapsto> JStr ''Resource'')
     \<and> truthy (isJSONLD (JObj es'))"
  using normalize_wraps_generic_data
    [of "[(''name'', JStr ''Alice''), (''homepage'', JStr ''https://alice.example'')]"]
  by simp

lemma semantic_is_object: "truthy (isJSONLD raw) \<Longrightarrow> \<exists>es. raw = JObj es"
  by (cases raw) (simp_all add: isJSONLD_def js_or_def)

text \<open>
  Claim C9. \<^verbatim>\<open>formatValue\<close> does not throw on \<^verbatim>\<open>null\<close> or \<^verbatim>\<open>undefined\<close>: it returns
  the two-character text of an empty string literal, at every indentation.
\<close>

theorem formatValue_absent:
  "formatValue h JNull indent = Inr [CHR 0x22, CHR 0x22]
   \<and> formatValue h JUndefined indent = Inr [CHR 0x22, CHR 0x22]"
  by (simp add: DQ_def)



lemma normalize_ref_refines:
  "normalize_ref hp d = Inr (hp', d') \<Longrightarrow> normalize (deref hp d) = Inr (deref hp' d')"
  by (auto simp: normalize_ref_def normalize_def split: if_splits sum.splits)

lemma normalize_ref_generic_allocates:
  "\<not> truthy (isJSONLD (deref hp d)) \<Longrightarrow> normalize_ref hp d = Inr (hp', d') \<Longrightarrow>
   d' = Ref (length hp) \<and> length hp' = Suc (length hp)"
  by (auto simp: normalize_ref_def split: sum.splits)

section \<open>Properties of the controller\<close>

lemmas controller_defs =
  showView_def showView_resume_def renderContent_def handleAsyncNQuads_def
  handleAsyncNQuads_resume_def generateContent_def toNQuads_def
  setLoadingState_def updateButtonStates_def renderTable_def loadData_def
  loadData_resume_def load_failed_def set_content_def set_display_def hide_all_def

text \<open>
  Claim C8. For a semantic input (\<^verbatim>\<open>isJSONLD\<close> is truthy) the document that \<^verbatim>\<open>loadData\<close>
  keeps is the input itself: the reference that comes back is the reference that went in
  and the heap is the same, so nothing was allocated or copied; and the value kept has
  nothing added or dropped.
\<close>

theorem normalize_semantic_identity:
  assumes "truthy (isJSONLD (deref hp d))"
  shows "normalize_ref hp d = Inr (hp, d)
       \<and> normalize (deref hp d) = Inr (deref hp d)
       \<and> data (loadData_resume h (Json (deref hp d)) st) = deref hp d"
proof -
  from assms obtain es where raw: "deref hp d = JObj es" using semantic_is_object by blast
  have "normalize_ref hp d = Inr (hp, d)" using assms by (simp add: normalize_ref_def)
  moreover have "normalize (deref hp d) = Inr (deref hp d)" using assms by (simp add: normalize_def)
  moreover from this have "data (loadData_resume h (Json (deref hp d)) st) = deref hp d"
    by (simp add: raw controller_defs Let_def)
  ultimately show ?thesis by simp
qed

theorem normalize_semantic_identity_witness:
  "normalize_ref [person_doc] (Ref 0) = Inr ([person_doc], Ref 0)
   \<and> normalize person_doc = Inr person_doc
   \<and> data (loadData_resume plain_host (Json person_doc) initial) = person_doc"
  using normalize_semantic_identity [of "[person_doc]" "Ref 0" plain_host initial]
  by (simp add: person_doc_def isJSONLD_def js_or_def)

lemma person_loaded_data: "data person_loaded = person_doc"
  by (simp add: person_loaded_def person_doc_def normalize_def isJSONLD_def js_or_def
      controller_defs Let_def)

lemma person_loaded_cache: "cache person_loaded = (\<lambda>f. None)"
  by (simp add: person_loaded_def person_doc_def normalize_def isJSONLD_def js_or_def
      controller_defs Let_def)

lemma toTurtle_person: "toTurtle plain_host person_doc = Inr person_turtle"
  by (simp add: toTurtle_def person_doc_def friend_def person_turtle_def plain_host_def
      js_or_def predicate_def is_http_def escape_quotes_def)

lemma generateContent_person_nquads:
  "generateContent plain_host Nquads person_doc = Inr (Converting person_doc)"
  by (simp add: generateContent_def toTurtle_person toNQuads_def) (simp add: plain_host_def)

text \<open>What \<^verbatim>\<open>showView\<close> leaves waiting when the cache has no text for the format.\<close>

lemma showView_uncached:
  assumes "truthy (data st)" and "f \<noteq> Table" and "cache st f = None \<or> cache st f = Some []"
  shows "showView h f st =
     ((hide_all st)\<lparr>currentFormat := f, download_display := ''inline-block''\<rparr>,
      case generateContent h f (data st) of Inl e \<Rightarrow> [] | Inr d \<Rightarrow> [ShowViewTask f d])"
  using assms by (auto simp: showView_def hide_all_def Let_def split: sum.splits)

text \<open>With a text in the cache \<^verbatim>\<open>showView\<close> does not call \<^verbatim>\<open>generateContent\<close>.\<close>

lemma showView_cached:
  assumes "truthy (data st)" and "f \<noteq> Table" and "cache st f = Some t" and "t \<noteq> []"
  shows "ShowViewTask g d \<notin> set (snd (showView h f st))"
  using assms
  by (auto simp: showView_def hide_all_def Let_def renderContent_def handleAsyncNQuads_def
      split: prod.splits if_splits)

text \<open>
  Claim C10. With a document loaded and a format other than the table, a cache entry that
  holds the empty text is treated as an absent one: \<^verbatim>\<open>showView\<close> renders nothing, calls
  \<^verbatim>\<open>generateContent\<close> and, unless that throws, waits for the derivation, exactly as it does
  without an entry. With a non-empty entry \<^verbatim>\<open>showView\<close> does not call
  \<^verbatim>\<open>generateContent\<close>.
\<close>

theorem showView_empty_text_recomputes:
  assumes "truthy (data st)" and "f \<noteq> Table"
  shows "(cache st f = Some [] \<longrightarrow>
            snd (showView h f st)
              = (case generateContent h f (data st) of Inl e \<Rightarrow> [] | Inr d \<Rightarrow> [ShowViewTask f d])
            \<and> snd (showView h f st) = snd (showView h f (st\<lparr>cache := (cache st)(f := None)\<rparr>))
            \<and> views (fst (showView h f st)) = views (hide_all st))
       \<and> (\<forall>t. cache st f = Some t \<and> t \<noteq> [] \<longrightarrow>
            (\<forall>g d. ShowViewTask g d \<notin> set (snd (showView h f st))))"
proof (intro conjI impI allI)
  assume empty: "cache st f = Some []"
  have here: "showView h f st =
     ((hide_all st)\<lparr>currentFormat := f, download_display := ''inline-block''\<rparr>,
      case generateContent h f (data st) of Inl e \<Rightarrow> [] | Inr d \<Rightarrow> [ShowViewTask f d])"
    using assms empty by (simp add: showView_uncached)
  have absent: "snd (showView h f (st\<lparr>cache := (cache st)(f := None)\<rparr>)) =
     (case generateContent h f (data st) of Inl e \<Rightarrow> [] | Inr d \<Rightarrow> [ShowViewTask f d])"
    using assms by (simp add: showView_uncached)
  show "snd (showView h f st)
      = (case generateContent h f (data st) of Inl e \<Rightarrow> [] | Inr d \<Rightarrow> [ShowViewTask f d])"
    by (simp add: here)
  show "snd (showView h f st) = snd (showView h f (st\<lparr>cache := (cache st)(f := None)\<rparr>))"
    by (simp add: here absent)
  show "views (fst (showView h f st)) = views (hide_all st)"
    by (simp add: here)
next
  fix t g d
  assume "cache st f = Some t \<and> t \<noteq> []"
  then show "ShowViewTask g d \<notin> set (snd (showView h f st))"
    using assms showView_cached by blast
qed

theorem showView_empty_text_recomputes_witness:
  "snd (showView plain_host Nquads (person_loaded\<lparr>cache := (\<lambda>f. None)(Nquads \<mapsto> [])\<rparr>))
     = [ShowViewTask Nquads (Converting person_doc)]
   \<and> snd (showView plain_host Nquads (person_loaded\<lparr>cache := (\<lambda>f. None)(Nquads \<mapsto> [])\<rparr>))
     = snd (showView plain_host Nquads person_loaded)
   \<and> (\<forall>g d. ShowViewTask g d \<notin> set (snd (showView plain_host Nquads
         (person_loaded\<lparr>cache := (\<lambda>f. None)(Nquads \<mapsto> ''<a> <b> <c> .'')\<rparr>))))"
proof -
  have same: "person_loaded\<lparr>cache := \<lambda>f. None\<rparr> = person_loaded"
    using arg_cong [OF person_loaded_cache, of "\<lambda>c. person_loaded\<lparr>cache := c\<rparr>"] by simp
  show ?thesis
    using showView_empty_text_recomputes
            [of "person_loaded\<lparr>cache := (\<lambda>f. None)(Nquads \<mapsto> [])\<rparr>" Nquads plain_host]
          showView_empty_text_recomputes
            [of "person_loaded\<lparr>cache := (\<lambda>f. None)(Nquads \<mapsto> ''<a> <b> <c> .'')\<rparr>" Nquads plain_host]
    by (simp add: person_loaded_data generateContent_person_nquads same) (auto simp: person_doc_def)
qed

text \<open>
  Claim C6. When \<^verbatim>\<open>fetch\<close> or \<^verbatim>\<open>response.json()\<close> rejects, the document and the cache
  are those of before the load, the load button is enabled again and the failure message is
  the content of the table view. The table view itself is still hidden: \<^verbatim>\<open>setLoadingState(true)\<close>
  hid every view, and the \<^verbatim>\<open>catch\<close> block shows none.
\<close>

theorem failed_load_message_hidden:
  "data (loadData_resume h FetchFailed (loadData st)) = data st
   \<and> cache (loadData_resume h FetchFailed (loadData st)) = cache st
   \<and> \<not> load_disabled (loadData_resume h FetchFailed (loadData st))
   \<and> content (views (loadData_resume h FetchFailed (loadData st)) Table) = failure_message
   \<and> display (views (loadData_resume h FetchFailed (loadData st)) Table) = ''none''
   \<and> data (loadData_resume h ParseFailed (loadData st)) = data st
   \<and> cache (loadData_resume h ParseFailed (loadData st)) = cache st
   \<and> \<not> load_disabled (loadData_resume h ParseFailed (loadData st))
   \<and> content (views (loadData_resume h ParseFailed (loadData st)) Table) = failure_message
   \<and> display (views (loadData_resume h ParseFailed (loadData st)) Table) = ''none''"
  by (simp add: loadData_resume_def loadData_def load_failed_def setLoadingState_def
      set_content_def hide_all_def Let_def)

text \<open>
  Claim C7, as amended. While a derivation for a format is in flight the cache is what it
  was before the request (no marker is stored), and a repeated \<^verbatim>\<open>showView\<close> for the format
  issues the same derivation once more. For that document, a request for the format
  leaves nothing waiting only if the cache holds a non-empty text for it.
\<close>

theorem repeated_request_issues_again:
  assumes doc: "truthy (data st)" and fmt: "f \<noteq> Table"
    and inflight: "snd (showView h f st) = [ShowViewTask f d]"
  shows "cache (fst (showView h f st)) = cache st
       \<and> snd (showView h f (fst (showView h f st))) = [ShowViewTask f d]
       \<and> (\<forall>st'. data st' = data st \<and> snd (showView h f st') = [] \<longrightarrow>
             (\<exists>t. cache st' f = Some t \<and> t \<noteq> []))"
proof -
  have uncached: "cache st f = None \<or> cache st f = Some []"
  proof (rule ccontr)
    assume "\<not> (cache st f = None \<or> cache st f = Some [])"
    then obtain t where "cache st f = Some t" "t \<noteq> []" by (cases "cache st f") auto
    from showView_cached [OF doc fmt this, where g = f and d = d and h = h] inflight
    show False by simp
  qed
  from showView_uncached [OF doc fmt uncached] inflight
  have gen: "generateContent h f (data st) = Inr d"
    by (simp split: sum.splits)
  have first: "showView h f st =
     ((hide_all st)\<lparr>currentFormat := f, download_display := ''inline-block''\<rparr>, [ShowViewTask f d])"
    using showView_uncached [OF doc fmt uncached] gen by simp
  have "snd (showView h f (fst (showView h f st))) = [ShowViewTask f d]"
    using showView_uncached
      [of "(hide_all st)\<lparr>currentFormat := f, download_display := ''inline-block''\<rparr>" f h]
      doc fmt uncached gen
    by (simp add: first hide_all_def)
  moreover have "cache (fst (showView h f st)) = cache st"
    by (simp add: first hide_all_def)
  moreover have "\<exists>t. cache st' f = Some t \<and> t \<noteq> []"
    if same: "data st' = data st" and none: "snd (showView h f st') = []" for st'
  proof (rule ccontr)
    assume "\<not> (\<exists>t. cache st' f = Some t \<and> t \<noteq> [])"
    then have "cache st' f = None \<or> cache st' f = Some []" by (cases "cache st' f") auto
    from showView_uncached [OF _ fmt this, of h] doc same gen none show False by simp
  qed
  ultimately show ?thesis by blast
qed

theorem repeated_request_issues_again_witness:
  "cache (fst (showView plain_host Nquads person_loaded)) = cache person_loaded
   \<and> snd (showView plain_host Nquads (fst (showView plain_host Nquads person_loaded)))
       = [ShowViewTask Nquads (Converting person_doc)]
   \<and> snd (showView plain_host Nquads
         (person_loaded\<lparr>cache := (\<lambda>f. None)(Nquads \<mapsto> ''<a> <b> <c> .'')\<rparr>)) = []
   \<and> (\<exists>t. cache (person_loaded\<lparr>cache := (\<lambda>f. None)(Nquads \<mapsto> ''<a> <b> <c> .'')\<rparr>) Nquads
             = Some t \<and> t \<noteq> [])"
proof -
  have first: "snd (showView plain_host Nquads person_loaded)
      = [ShowViewTask Nquads (Converting person_doc)]"
    using showView_uncached [of person_loaded Nquads plain_host]
    by (simp add: person_loaded_data person_loaded_cache generateContent_person_nquads)
       (simp add: person_doc_def)
  have shown: "snd (showView plain_host Nquads
         (person_loaded\<lparr>cache := (\<lambda>f. None)(Nquads \<mapsto> ''<a> <b> <c> .'')\<rparr>)) = []"
    by (simp add: showView_def renderContent_def hide_all_def Let_def person_loaded_data)
  from repeated_request_issues_again [OF _ _ first] shown
  show ?thesis by (simp add: person_loaded_data) (simp add: person_doc_def)
qed

text \<open>
  Claim C7 as stated fails: with \<^verbatim>\<open>person_doc\<close> loaded, a request for N-Quads leaves a
  derivation waiting and no cache entry, and a second request issues a derivation too.
\<close>

theorem repeated_request_counterexample:
  "snd (showView plain_host Nquads person_loaded) = [ShowViewTask Nquads (Converting person_doc)]
   \<and> cache (fst (showView plain_host Nquads person_loaded)) Nquads = None
   \<and> snd (showView plain_host Nquads (fst (showView plain_host Nquads person_loaded))) \<noteq> []"
proof -
  have first: "showView plain_host Nquads person_loaded =
      ((hide_all person_loaded)\<lparr>currentFormat := Nquads, download_display := ''inline-block''\<rparr>,
       [ShowViewTask Nquads (Converting person_doc)])"
    using showView_uncached [of person_loaded Nquads plain_host]
    by (simp add: person_loaded_data person_loaded_cache generateContent_person_nquads)
       (simp add: person_doc_def)
  have "snd (showView plain_host Nquads (fst (showView plain_host Nquads person_loaded))) \<noteq> []"
    using showView_uncached
      [of "(hide_all person_loaded)\<lparr>currentFormat := Nquads,
            download_display := ''inline-block''\<rparr>" Nquads plain_host]
    by (simp add: first hide_all_def person_loaded_data person_loaded_cache
        generateContent_person_nquads)
       (simp add: person_doc_def)
  with first show ?thesis by (simp add: hide_all_def person_loaded_cache)
qed

text \<open>
  Claim C4. N-Quads is requested, the user switches to Turtle before the converter answers,
  and the Turtle view is shown with the Turtle text. When the converter answers, the text is
  stored in the cache and the current format is still Turtle, but \<^verbatim>\<open>showView\<close> resumes
  without looking at the current format: it writes to the N-Quads view and shows it, beside
  the Turtle view.
\<close>

theorem stale_nquads_shown_after_switch:
  fixes h :: host and st :: explorer and r :: "string + string"
  defines "s1 \<equiv> fst (showView h Nquads st)"
  defines "s2 \<equiv> fst (showView h Turtle s1)"
  defines "q \<equiv> settle (Converting (data st)) r"
  assumes doc: "truthy (data st)" and lib: "jsonld h"
    and fresh: "cache st Nquads = None" "cache st Turtle = None"
    and turtle: "toTurtle h (data st) = Inr turtle"
  defines "s3 \<equiv> fst (showView_resume h Turtle turtle s2)"
  defines "s4 \<equiv> fst (showView_resume h Nquads q s3)"
  shows "snd (showView h Nquads st) = [ShowViewTask Nquads (Converting (data st))]
       \<and> snd (showView h Turtle s1) = [ShowViewTask Turtle (Settled turtle)]
       \<and> currentFormat s3 = Turtle
       \<and> content (views s3 Turtle) = turtle
       \<and> display (views s3 Turtle) = ''block''
       \<and> display (views s3 Nquads) = ''none''
       \<and> cache s4 Nquads = Some q
       \<and> currentFormat s4 = Turtle
       \<and> display (views s4 Nquads) = ''block''
       \<and> content (views s4 Nquads) = (if str_includes q ''Loading'' then ''Loading...'' else q)
       \<and> display (views s4 Turtle) = ''block''
       \<and> content (views s4 Turtle) = turtle"
proof -
  have gen_q: "generateContent h Nquads (data st) = Inr (Converting (data st))"
    using turtle lib by (simp add: generateContent_def toNQuads_def)
  have gen_t: "generateContent h Turtle (data st) = Inr (Settled turtle)"
    using turtle by (simp add: generateContent_def)
  have first: "showView h Nquads st =
      ((hide_all st)\<lparr>currentFormat := Nquads, download_display := ''inline-block''\<rparr>,
       [ShowViewTask Nquads (Converting (data st))])"
    using doc fresh gen_q by (simp add: showView_def hide_all_def Let_def)
  have second: "showView h Turtle s1 =
      ((hide_all st)\<lparr>currentFormat := Turtle, download_display := ''inline-block''\<rparr>,
       [ShowViewTask Turtle (Settled turtle)])"
    using doc fresh gen_t by (simp add: s1_def first) (simp add: showView_def hide_all_def Let_def)
  have s3: "s3 = (hide_all st)\<lparr>currentFormat := Turtle, download_display := ''inline-block'',
                   cache := (cache st)(Turtle \<mapsto> turtle),
                   views := (views (hide_all st))
                     (Turtle := (views st Turtle)\<lparr>content := turtle, display := ''block''\<rparr>)\<rparr>"
    by (simp add: s3_def s2_def second showView_resume_def renderContent_def
        set_content_def set_display_def hide_all_def)
  have "cache s4 Nquads = Some q"
    and "currentFormat s4 = Turtle"
    and "display (views s4 Nquads) = ''block''"
    and "content (views s4 Nquads) = (if str_includes q ''Loading'' then ''Loading...'' else q)"
    and "display (views s4 Turtle) = ''block''"
    and "content (views s4 Turtle) = turtle"
    by (simp_all add: s4_def s3 showView_resume_def renderContent_def handleAsyncNQuads_def
        set_content_def set_display_def hide_all_def)
  moreover have "currentFormat s3 = Turtle" "content (views s3 Turtle) = turtle"
    "display (views s3 Turtle) = ''block''" "display (views s3 Nquads) = ''none''"
    by (simp_all add: s3 hide_all_def)
  ultimately show ?thesis using first second by simp
qed


theorem stale_nquads_shown_after_switch_witness:
  "cache (switch_then_resolve plain_host person_loaded person_turtle ''<a> <b> <c> .'') Nquads
     = Some ''<a> <b> <c> .''
   \<and> currentFormat (switch_then_resolve plain_host person_loaded person_turtle ''<a> <b> <c> .'')
     = Turtle
   \<and> display (views (switch_then_resolve plain_host person_loaded person_turtle ''<a> <b> <c> .'')
       Nquads) = ''block''
   \<and> content (views (switch_then_resolve plain_host person_loaded person_turtle ''<a> <b> <c> .'')
       Nquads) = ''<a> <b> <c> .''"
  using stale_nquads_shown_after_switch
    [where h = plain_host and st = person_loaded and turtle = person_turtle
       and r = "Inr ''<a> <b> <c> .''"]
  by (simp add: switch_then_resolve_def person_loaded_data person_loaded_cache toTurtle_person)
     (simp add: person_doc_def plain_host_def)




section \<open>Properties of the serializer\<close>














text \<open>
  Claim C5, as amended. In the Turtle text of \<^verbatim>\<open>person_doc\<close> the nested friend is the
  anonymous node formatted at an indentation of four spaces: \<^verbatim>\<open>[\<close>, the type and the name
  on lines indented by six spaces, and \<^verbatim>\<open>]\<close> indented by four. The text of the
  specification, indented by two spaces and none, is what \<^verbatim>\<open>formatValue\<close> gives for the
  friend at the empty indentation.
\<close>

theorem person_doc_friend_block:
  assumes "decodeHtmlEntities h ''Bob'' = ''Bob''"
  shows "toTurtle h person_doc = Inr person_turtle
       \<and> formatValue h friend ''    '' =
           Inr (''['' @ NL @ ''      a schema:Person ;'' @ NL
                @ ''      schema:name '' @ DQ @ ''Bob'' @ DQ @ NL @ ''    ]'')
       \<and> formatValue h friend [] = Inr friend_claimed"
  using assms
  by (simp add: toTurtle_def person_doc_def friend_def person_turtle_def friend_claimed_def
      js_or_def predicate_def is_http_def escape_quotes_def)

theorem person_doc_friend_block_witness:
  "decodeHtmlEntities plain_host ''Bob'' = ''Bob''
   \<and> toTurtle plain_host person_doc = Inr person_turtle
   \<and> formatValue plain_host friend ''    '' =
           Inr (''['' @ NL @ ''      a schema:Person ;'' @ NL
                @ ''      schema:name '' @ DQ @ ''Bob'' @ DQ @ NL @ ''    ]'')
   \<and> formatValue plain_host friend [] = Inr friend_claimed"
  using person_doc_friend_block [of plain_host] by (simp add: plain_host_def)

text \<open>
  Claim C5 as stated fails: the text the specification gives for the friend occurs nowhere
  in the Turtle text of \<^verbatim>\<open>person_doc\<close>.
\<close>

theorem person_doc_friend_block_counterexample:
  "toTurtle plain_host person_doc = Inr person_turtle
   \<and> \<not> str_includes person_turtle friend_claimed"
  apply (rule conjI)
   apply (rule toTurtle_person)
  apply (simp add: person_turtle_def friend_claimed_def prefix_block_def prefixes_def NL_def DQ_def)
  done

end
